theory Spec2Isabelle
  imports Main
begin

section \<open>Data model\<close>

text \<open>
  The application is a Streamlit script: every user interaction re-runs
  \<^verbatim>\<open>LAWONTIPApp().run()\<close> against the per-session store \<^verbatim>\<open>st.session_state\<close>.
  One run of the chat page is modelled as a function from the session state, the widget
  values of that run and the external collaborators to the new session state, the
  elements rendered on the page and the way the run ended.

  Static markup (style sheets, headers, the three progress lines, footers) carries no data
  and is left out of the rendered elements; the HTML wrapper around an interpolated text is
  left out as well, the interpolated text is kept.
\<close>

text \<open>
  The four failure kinds of the collaborators, and every other Python exception. The code
  never inspects the class of an exception: it catches \<^verbatim>\<open>Exception\<close> and formats it with
  \<^verbatim>\<open>{e}\<close>, which is \<^verbatim>\<open>str(e)\<close>, the message of the exception.
\<close>

datatype error_kind =
    RetrievalUnavailable
  | TemplateBindingError
  | GenerationUnavailable
  | GenerationTimeout
  | OtherException

datatype exn = Exn (exn_kind: error_kind) (exn_str: string)

text \<open>An entry of \<^verbatim>\<open>st.session_state.messages\<close>: the dict \<^verbatim>\<open>{"role": ..., "content": ...}\<close>.\<close>

record message =
  role :: string
  content :: string

text \<open>
  What one run puts on the page: a chat bubble (\<^verbatim>\<open>st.chat_message(role)\<close> with the text
  written inside it by \<^verbatim>\<open>st.markdown\<close>) or an error box (\<^verbatim>\<open>st.error\<close>).
\<close>

datatype ui_event =
    ChatMessage string string
  | StError string

text \<open>
  How a run ends: it reaches the end of the script, or \<^verbatim>\<open>st.rerun()\<close> or \<^verbatim>\<open>st.stop()\<close>
  abandons it at the point of the call.
\<close>

datatype outcome = Finished | Rerun | Stopped


section \<open>Bounded conversation memory\<close>

text \<open>
  Modelled from the spec: the class \<^verbatim>\<open>ConversationBufferWindowMemory\<close> is imported from
  the \<^verbatim>\<open>langchain\<close> package and is not part of the source file; the source only
  constructs it (with \<^verbatim>\<open>k=2, memory_key="chat_history", return_messages=True\<close>), hands
  it to the chain and calls \<^verbatim>\<open>clear()\<close> on it. Its behaviour follows section 4.1 of the
  specification: a window of at most \<open>k\<close> completed exchanges, oldest first.
\<close>

datatype turn_role = UserRole | AssistantRole

datatype turn = Turn (turn_role: turn_role) (turn_text: string)

record memory =
  mem_k :: nat
  memory_key :: string
  return_messages :: bool
  exchanges :: "(string \<times> string) list"

text \<open>Modelled from the spec: the constructor; a new memory holds no exchange.\<close>

definition ConversationBufferWindowMemory :: "nat \<Rightarrow> string \<Rightarrow> bool \<Rightarrow> memory" where
  "ConversationBufferWindowMemory k key ret =
     \<lparr>mem_k = k, memory_key = key, return_messages = ret, exchanges = []\<rparr>"

text \<open>
  Modelled from the spec: \<^verbatim>\<open>append(userTurn, assistantTurn)\<close> adds one exchange; if the
  resulting count exceeds \<open>k\<close>, the oldest exchange is evicted (a single eviction).
\<close>

definition append_exchange :: "memory \<Rightarrow> string \<Rightarrow> string \<Rightarrow> memory" where
  "append_exchange m u a =
     (let xs = exchanges m @ [(u, a)]
      in m\<lparr>exchanges := (if mem_k m < length xs then tl xs else xs)\<rparr>)"

text \<open>Modelled from the spec: the two turns of one exchange, the user turn first.\<close>

fun turns_of :: "(string \<times> string) list \<Rightarrow> turn list" where
  "turns_of [] = []"
| "turns_of ((u, a) # xs) = Turn UserRole u # Turn AssistantRole a # turns_of xs"

text \<open>Modelled from the spec: \<^verbatim>\<open>history()\<close> returns all turns of the window, oldest first.\<close>

definition history :: "memory \<Rightarrow> turn list" where
  "history m = turns_of (exchanges m)"

text \<open>Modelled from the spec: \<^verbatim>\<open>clear()\<close> resets the memory to empty.\<close>

definition clear :: "memory \<Rightarrow> memory" where
  "clear m = m\<lparr>exchanges := []\<rparr>"

text \<open>A sequence of appends, in order.\<close>

fun append_all :: "memory \<Rightarrow> (string \<times> string) list \<Rightarrow> memory" where
  "append_all m [] = m"
| "append_all m ((u, a) # es) = append_all (append_exchange m u a) es"


section \<open>Session state\<close>

record session_state =
  page :: string
  messages :: "message list"
  memory :: memory

text \<open>
  \<^verbatim>\<open>_initialize_session_state\<close>: each of the three entries is created only when it is
  absent, so the model takes the entries already present as options.
\<close>

definition initial_memory :: memory where
  "initial_memory = ConversationBufferWindowMemory 2 ''chat_history'' True"

definition initialize_session_state ::
  "string option \<Rightarrow> message list option \<Rightarrow> memory option \<Rightarrow> session_state" where
  "initialize_session_state p ms mem =
     \<lparr>page = (case p of None \<Rightarrow> ''landing'' | Some x \<Rightarrow> x),
      messages = (case ms of None \<Rightarrow> [] | Some x \<Rightarrow> x),
      memory = (case mem of None \<Rightarrow> initial_memory | Some x \<Rightarrow> x)\<rparr>"


section \<open>Prompt templates\<close>

record prompt_template =
  template :: string
  input_variables :: "string list"

text \<open>\<^verbatim>\<open>_get_prompt_template\<close>: the template of the general legal question mode.\<close>

definition get_prompt_template :: prompt_template where
  "get_prompt_template =
     \<lparr>template = ''\<newline>        As a legal chatbot specializing in Indian law, provide accurate and concise information based on the user's questions. \<newline>        Focus on relevant context from the knowledge base while avoiding unnecessary details. Your responses should be brief, \<newline>        professional, and contextually relevant. If a question falls outside the given context, rely on your knowledge base \<newline>        to generate an appropriate response. Prioritize the user's query and deliver precise information pertaining to Indian legal system.\<newline>        \<newline>        CONTEXT: {context}\<newline>        CHAT HISTORY: {chat_history}\<newline>        QUESTION: {question}\<newline>        ANSWER:\<newline>        '',
      input_variables = [''context'', ''question'', ''chat_history'']\<rparr>"

text \<open>\<^verbatim>\<open>_get_scenario_prompt_template\<close>: the template of the scenario mode.\<close>

definition get_scenario_prompt_template :: prompt_template where
  "get_scenario_prompt_template =
     \<lparr>template = ''\<newline>        You are a legal expert chatbot specializing in Indian law. When a user describes a scenario, analyze it, \<newline>        identify the relevant legal issue, and provide the most applicable law, section, or rule from the Indian legal context. \<newline>        Use the provided context from the knowledge base to support your answer. If the scenario involves exceptions \<newline>        (such as self-defense), explain the relevant law and its application concisely.\<newline>\<newline>        CONTEXT: {context}\<newline>        CHAT HISTORY: {chat_history}\<newline>        SCENARIO: {question}\<newline>        ANSWER:\<newline>        '',
      input_variables = [''context'', ''question'', ''chat_history'']\<rparr>"

text \<open>
  The choice made at the head of the \<^verbatim>\<open>try\<close> block of \<^verbatim>\<open>render_chat_page\<close>: the scenario
  template for the radio value \<^verbatim>\<open>"Describe a scenario"\<close>, the default template otherwise.
\<close>

definition select_prompt :: "string \<Rightarrow> prompt_template" where
  "select_prompt input_type =
     (if input_type = ''Describe a scenario'' then get_scenario_prompt_template
      else get_prompt_template)"

text \<open>
  Each call of a template getter evaluates \<^verbatim>\<open>PromptTemplate(...)\<close> and so constructs a new
  object. Objects live in a store, a list indexed by address; construction takes the next
  free address.
\<close>

type_synonym store = "prompt_template list"

definition new_object :: "store \<Rightarrow> prompt_template \<Rightarrow> nat \<times> store" where
  "new_object h v = (length h, h @ [v])"

definition call_get_prompt_template :: "store \<Rightarrow> nat \<times> store" where
  "call_get_prompt_template h = new_object h get_prompt_template"

definition call_get_scenario_prompt_template :: "store \<Rightarrow> nat \<times> store" where
  "call_get_scenario_prompt_template h = new_object h get_scenario_prompt_template"

definition call_select_prompt :: "string \<Rightarrow> store \<Rightarrow> nat \<times> store" where
  "call_select_prompt input_type h =
     (if input_type = ''Describe a scenario'' then call_get_scenario_prompt_template h
      else call_get_prompt_template h)"

text \<open>
  Modelled from the spec: filling the placeholders is done by \<^verbatim>\<open>PromptTemplate\<close> of the
  \<^verbatim>\<open>langchain\<close> package, which is not part of the source file. Following section 4.3,
  a placeholder \<^verbatim>\<open>{name}\<close> is replaced by the value bound to \<open>name\<close>, and binding
  fails with \<open>TemplateBindingError\<close> when a placeholder cannot be filled (no value for
  its name, or for a declared input variable, or a brace without its partner).
  The second argument of \<open>format_aux\<close> is the name being read, reversed, while
  inside a placeholder.
\<close>

fun format_aux :: "(string \<times> string) list \<Rightarrow> string option \<Rightarrow> string \<Rightarrow> string option" where
  "format_aux vars None [] = Some []"
| "format_aux vars (Some n) [] = None"
| "format_aux vars None (c # cs) =
     (if c = CHR ''{'' then format_aux vars (Some []) cs
      else if c = CHR ''}'' then None
      else map_option ((#) c) (format_aux vars None cs))"
| "format_aux vars (Some n) (c # cs) =
     (if c = CHR ''}'' then
        (case map_of vars (rev n) of
           None \<Rightarrow> None
         | Some v \<Rightarrow> map_option ((@) v) (format_aux vars None cs))
      else format_aux vars (Some (c # n)) cs)"

definition bind_prompt :: "prompt_template \<Rightarrow> (string \<times> string) list \<Rightarrow> exn + string" where
  "bind_prompt t vars =
     (if list_all (\<lambda>v. map_of vars v \<noteq> None) (input_variables t) then
        (case format_aux vars None (template t) of
           None \<Rightarrow> Inl (Exn TemplateBindingError ''placeholder cannot be filled'')
         | Some s \<Rightarrow> Inr s)
      else Inl (Exn TemplateBindingError ''placeholder cannot be filled''))"


section \<open>External collaborators and the retrieval chain\<close>

text \<open>
  The vector store, the embedding service and the language model are external services.
  They are parameters of the model: whether loading the vector store and building the
  chain succeed in this run, what a similarity search for a query and a count returns,
  what the language model answers to a bound prompt, and how the chain writes a history
  into the prompt. A failing call is the exception it raises.
\<close>

record env =
  load_vector_store :: "exn option"
  build_chain :: "exn option"
  retrieve :: "string \<Rightarrow> nat \<Rightarrow> exn + string list"
  generate :: "string \<Rightarrow> exn + string"
  serialize :: "turn list \<Rightarrow> string"

text \<open>
  The chain object \<^verbatim>\<open>self.qa\<close>: the prompt of its inner
  \<^verbatim>\<open>combine_docs_chain.llm_chain\<close>, which the page assigns before every call, and the
  count \<^verbatim>\<open>search_kwargs={"k": 4}\<close> of its retriever. Its memory is the very object
  \<^verbatim>\<open>st.session_state.memory\<close>, so a call of the chain takes the memory of the session and
  gives back the memory of the session.
\<close>

record qa_chain =
  qa_prompt :: prompt_template
  qa_search_k :: nat

text \<open>
  Modelled from the spec: \<^verbatim>\<open>ConversationalRetrievalChain\<close> is imported from the
  \<^verbatim>\<open>langchain\<close> package and is not part of the source file. Following section 4.5,
  a call retrieves with the utterance, binds the concatenated documents, the serialized
  history and the utterance into the prompt, generates, and only on success appends the
  exchange of utterance and answer to the memory. The first failure ends the call.
\<close>

definition build_prompt :: "env \<Rightarrow> qa_chain \<Rightarrow> memory \<Rightarrow> string \<Rightarrow> string list \<Rightarrow> exn + string" where
  "build_prompt e qa m u docs =
     bind_prompt (qa_prompt qa)
       [(''context'', concat docs),
        (''chat_history'', serialize e (history m)),
        (''question'', u)]"

definition chain_invoke :: "env \<Rightarrow> qa_chain \<Rightarrow> memory \<Rightarrow> string \<Rightarrow> exn + (string \<times> memory)" where
  "chain_invoke e qa m u =
     (case retrieve e u (qa_search_k qa) of
        Inl x \<Rightarrow> Inl x
      | Inr docs \<Rightarrow>
          (case build_prompt e qa m u docs of
             Inl x \<Rightarrow> Inl x
           | Inr bound \<Rightarrow>
               (case generate e bound of
                  Inl x \<Rightarrow> Inl x
                | Inr ans \<Rightarrow> Inr (ans, append_exchange m u ans))))"


section \<open>The application\<close>

text \<open>The application object: \<^verbatim>\<open>self.qa\<close> exists only once the components are built.\<close>

record app =
  qa :: "qa_chain option"

text \<open>
  \<^verbatim>\<open>_initialize_llm_components\<close>: nothing to do when \<^verbatim>\<open>self.qa\<close> exists; otherwise load
  the vector store, then build retriever, model and chain. Either failure is shown with
  \<^verbatim>\<open>st.error\<close> and followed by \<^verbatim>\<open>st.stop()\<close>, which is the result \<open>None\<close>.
\<close>

definition initialize_llm_components :: "env \<Rightarrow> app \<Rightarrow> ui_event list \<times> app option" where
  "initialize_llm_components e a =
     (case qa a of
        Some c \<Rightarrow> ([], Some a)
      | None \<Rightarrow>
          (case load_vector_store e of
             Some x \<Rightarrow> ([StError (''Could not load vector store: '' @ exn_str x)], None)
           | None \<Rightarrow>
               (case build_chain e of
                  Some x \<Rightarrow>
                    ([StError (''Could not initialize LLM components: '' @ exn_str x)], None)
                | None \<Rightarrow>
                    ([], Some (a\<lparr>qa := Some \<lparr>qa_prompt = get_prompt_template,
                                             qa_search_k = 4\<rparr>\<rparr>)))))"

text \<open>\<^verbatim>\<open>go_to_page\<close> and \<^verbatim>\<open>reset_conversation\<close>: both end the run with \<^verbatim>\<open>st.rerun()\<close>.\<close>

definition go_to_page :: "string \<Rightarrow> session_state \<Rightarrow> session_state \<times> outcome" where
  "go_to_page p s = (s\<lparr>page := p\<rparr>, Rerun)"

definition reset_conversation :: "session_state \<Rightarrow> session_state \<times> outcome" where
  "reset_conversation s = (s\<lparr>messages := [], memory := clear (memory s)\<rparr>, Rerun)"

text \<open>
  The \<^verbatim>\<open>try\<close>/\<^verbatim>\<open>except\<close> block of \<^verbatim>\<open>render_chat_page\<close>, the code's counterpart of the
  specification's \<^verbatim>\<open>processTurn\<close>: assign the prompt of the mode to the chain, call the chain;
  on any exception show it with \<^verbatim>\<open>st.error\<close> and take the fixed apology as the answer.
  Reading \<^verbatim>\<open>self.qa\<close> when it does not exist raises inside the block as well.
\<close>

definition apology :: string where
  "apology = ''I apologize, but I encountered an error while processing your request. Please try again.''"

record turn_result =
  tr_answer :: string
  tr_memory :: memory
  tr_app :: app
  tr_ui :: "ui_event list"

definition turn_failed :: "app \<Rightarrow> memory \<Rightarrow> exn \<Rightarrow> turn_result" where
  "turn_failed a m x =
     \<lparr>tr_answer = apology, tr_memory = m, tr_app = a,
      tr_ui = [StError (''Error generating response: '' @ exn_str x)]\<rparr>"

definition process_turn :: "env \<Rightarrow> app \<Rightarrow> string \<Rightarrow> memory \<Rightarrow> string \<Rightarrow> turn_result" where
  "process_turn e a input_type m u =
     (case qa a of
        None \<Rightarrow>
          turn_failed a m
            (Exn OtherException
               ([CHR 0x27] @ ''LAWONTIPApp'' @ [CHR 0x27] @
                '' object has no attribute '' @ [CHR 0x27] @ ''qa'' @ [CHR 0x27]))
      | Some c \<Rightarrow>
          (let c' = c\<lparr>qa_prompt := select_prompt input_type\<rparr>;
               a' = a\<lparr>qa := Some c'\<rparr>
           in case chain_invoke e c' m u of
                Inl x \<Rightarrow> turn_failed a' m x
              | Inr (ans, m') \<Rightarrow>
                  \<lparr>tr_answer = ans, tr_memory = m', tr_app = a', tr_ui = []\<rparr>))"

text \<open>The widget values of one run of the chat page.\<close>

record run_input =
  back_home :: bool
  input_type :: string
  chat_input :: "string option"
  clear_chat :: bool
  new_question :: bool

record run_result =
  r_app :: app
  r_state :: session_state
  r_ui :: "ui_event list"
  r_outcome :: outcome

text \<open>
  The body of \<^verbatim>\<open>if prompt := st.chat_input(...)\<close>: show and store the user's message, run
  the turn, show and store the answer.
\<close>

definition handle_prompt ::
  "env \<Rightarrow> app \<Rightarrow> string \<Rightarrow> session_state \<Rightarrow> string \<Rightarrow> app \<times> session_state \<times> ui_event list" where
  "handle_prompt e a it s u =
     (let s1 = s\<lparr>messages := messages s @ [\<lparr>role = ''user'', content = u\<rparr>]\<rparr>;
          r = process_turn e a it (memory s1) u;
          s2 = s1\<lparr>memory := tr_memory r\<rparr>;
          s3 = s2\<lparr>messages := messages s2 @ [\<lparr>role = ''assistant'', content = tr_answer r\<rparr>]\<rparr>
      in (tr_app r, s3,
          [ChatMessage ''user'' u] @ tr_ui r @ [ChatMessage ''assistant'' (tr_answer r)]))"

text \<open>The loop that displays the stored messages.\<close>

definition display_messages :: "message list \<Rightarrow> ui_event list" where
  "display_messages ms = map (\<lambda>m. ChatMessage (role m) (content m)) ms"

text \<open>
  \<^verbatim>\<open>render_chat_page\<close>: the back button, the components, the stored messages, the chat
  input (a submitted text is never empty, and an empty one would be falsy), the two
  control buttons.
\<close>

definition render_chat_page :: "env \<Rightarrow> run_input \<Rightarrow> app \<Rightarrow> session_state \<Rightarrow> run_result" where
  "render_chat_page e i a s =
     (if back_home i then
        (case go_to_page ''landing'' s of
           (s', oc) \<Rightarrow> \<lparr>r_app = a, r_state = s', r_ui = [], r_outcome = oc\<rparr>)
      else
        (case initialize_llm_components e a of
           (evs, None) \<Rightarrow> \<lparr>r_app = a, r_state = s, r_ui = evs, r_outcome = Stopped\<rparr>
         | (evs, Some a1) \<Rightarrow>
             (let shown = evs @ display_messages (messages s);
                  (a2, s2, evs2) =
                     (case chat_input i of
                        None \<Rightarrow> (a1, s, [])
                      | Some u \<Rightarrow> if u = [] then (a1, s, []) else handle_prompt e a1 (input_type i) s u)
              in if clear_chat i then
                   (case reset_conversation s2 of
                      (s', oc) \<Rightarrow> \<lparr>r_app = a2, r_state = s', r_ui = shown @ evs2, r_outcome = oc\<rparr>)
                 else if new_question i then
                   \<lparr>r_app = a2, r_state = s2, r_ui = shown @ evs2, r_outcome = Rerun\<rparr>
                 else
                   \<lparr>r_app = a2, r_state = s2, r_ui = shown @ evs2, r_outcome = Finished\<rparr>)))"


section \<open>Example runs\<close>

text \<open>
  \<^verbatim>\<open>LAWONTIPApp()\<close> is constructed at the start of every run, so a run starts with an
  application object that has no \<^verbatim>\<open>qa\<close> yet.
\<close>

definition fresh_app :: app where
  "fresh_app = \<lparr>qa = None\<rparr>"

text \<open>The chain that a run starting from \<open>fresh_app\<close> calls for a given radio value.\<close>

definition page_chain :: "string \<Rightarrow> qa_chain" where
  "page_chain it = \<lparr>qa_prompt = select_prompt it, qa_search_k = 4\<rparr>"

text \<open>
  Collaborators that all work (two documents in the index, the model answers
  \<^verbatim>\<open>Answer A\<close>), and three that fail: the index cannot be queried, the model call
  exceeds its deadline, the vector store cannot be loaded.
\<close>

definition ex_env_ok :: env where
  "ex_env_ok =
     \<lparr>load_vector_store = None, build_chain = None,
      retrieve = (\<lambda>q n. Inr (take n [''doc one'', ''doc two''])),
      generate = (\<lambda>b. Inr ''Answer A''),
      serialize = (\<lambda>ts. concat (map turn_text ts))\<rparr>"

definition ex_env_retrieval_down :: env where
  "ex_env_retrieval_down =
     ex_env_ok\<lparr>retrieve := (\<lambda>q n. Inl (Exn RetrievalUnavailable ''index unreachable''))\<rparr>"

definition ex_env_timeout :: env where
  "ex_env_timeout =
     ex_env_ok\<lparr>generate := (\<lambda>b. Inl (Exn GenerationTimeout ''deadline exceeded''))\<rparr>"

definition ex_env_no_store :: env where
  "ex_env_no_store =
     ex_env_ok\<lparr>load_vector_store := Some (Exn RetrievalUnavailable ''no such file'')\<rparr>"

text \<open>
  Collaborators whose retrieval, or whose generation, raises a given exception, and a
  model that answers with the very prompt it is given.
\<close>

definition ex_env_retrieval_raises :: "exn \<Rightarrow> env" where
  "ex_env_retrieval_raises x = ex_env_ok\<lparr>retrieve := (\<lambda>q n. Inl x)\<rparr>"

definition ex_env_generation_raises :: "exn \<Rightarrow> env" where
  "ex_env_generation_raises x = ex_env_ok\<lparr>generate := (\<lambda>b. Inl x)\<rparr>"

definition ex_env_echo :: env where
  "ex_env_echo = ex_env_ok\<lparr>generate := (\<lambda>b. Inr b)\<rparr>"

definition ex_input :: run_input where
  "ex_input =
     \<lparr>back_home = False, input_type = ''Ask a legal question'',
      chat_input = Some ''What is bail?'', clear_chat = False, new_question = False\<rparr>"

definition ex_state :: session_state where
  "ex_state = initialize_session_state (Some ''chat'') None None"


text \<open>
  The text of each template with its three placeholders filled, written out: what binding
  the template of the source is shown to produce.
\<close>

definition question_prompt_text :: "string \<Rightarrow> string \<Rightarrow> string \<Rightarrow> string" where
  "question_prompt_text c h q =
        ''\<newline>        As a legal chatbot specializing in Indian law, provide accurate and concise information based on the user's questions. \<newline>        Focus on relevant context from the knowledge base while avoiding unnecessary details. Your responses should be brief, \<newline>        professional, and contextually relevant. If a question falls outside the given context, rely on your knowledge base \<newline>        to generate an appropriate response. Prioritize the user's query and deliver precise information pertaining to Indian legal system.\<newline>        \<newline>        CONTEXT: '' @
        c @
        ''\<newline>        CHAT HISTORY: '' @
        h @
        ''\<newline>        QUESTION: '' @
        q @
        ''\<newline>        ANSWER:\<newline>        ''"

definition scenario_prompt_text :: "string \<Rightarrow> string \<Rightarrow> string \<Rightarrow> string" where
  "scenario_prompt_text c h q =
        ''\<newline>        You are a legal expert chatbot specializing in Indian law. When a user describes a scenario, analyze it, \<newline>        identify the relevant legal issue, and provide the most applicable law, section, or rule from the Indian legal context. \<newline>        Use the provided context from the knowledge base to support your answer. If the scenario involves exceptions \<newline>        (such as self-defense), explain the relevant law and its application concisely.\<newline>\<newline>        CONTEXT: '' @
        c @
        ''\<newline>        CHAT HISTORY: '' @
        h @
        ''\<newline>        SCENARIO: '' @
        q @
        ''\<newline>        ANSWER:\<newline>        ''"


section \<open>The memory window\<close>

lemma turns_of_append: "turns_of (xs @ ys) = turns_of xs @ turns_of ys"
  by (induction xs rule: turns_of.induct) simp_all

lemma length_turns_of: "length (turns_of xs) = 2 * length xs"
  by (induction xs rule: turns_of.induct) simp_all

lemma mem_k_append_exchange: "mem_k (append_exchange m u a) = mem_k m"
  by (simp add: append_exchange_def Let_def)

lemma exchanges_append_exchange:
  assumes "length (exchanges m) \<le> mem_k m"
  shows "exchanges (append_exchange m u a) =
           drop (Suc (length (exchanges m)) - mem_k m) (exchanges m @ [(u, a)])"
proof (cases "length (exchanges m) < mem_k m")
  case True
  then show ?thesis by (simp add: append_exchange_def Let_def)
next
  case False
  with assms have eq: "length (exchanges m) = mem_k m" by simp
  then have one: "Suc (length (exchanges m)) - mem_k m = Suc 0" by simp
  have "exchanges (append_exchange m u a) = tl (exchanges m @ [(u, a)])"
    using eq by (simp add: append_exchange_def Let_def)
  also have "\<dots> = drop (Suc 0) (exchanges m @ [(u, a)])"
    by (simp only: drop_Suc drop_0)
  finally show ?thesis by (simp only: one)
qed

text \<open>
  The window after a run of appends is the last \<open>k\<close> exchanges of everything appended so
  far, \<open>pre\<close> being what was appended before the run.
\<close>

lemma window_append_all:
  "exchanges m = drop (length pre - mem_k m) pre \<Longrightarrow>
   exchanges (append_all m es) = drop (length (pre @ es) - mem_k m) (pre @ es)"
proof (induction m es arbitrary: pre rule: append_all.induct)
  case (1 m)
  then show ?case by simp
next
  case (2 m u a es)
  have le: "length (exchanges m) \<le> mem_k m" using 2(2) by simp
  have "exchanges (append_exchange m u a) =
          drop (length (pre @ [(u, a)]) - mem_k (append_exchange m u a)) (pre @ [(u, a)])"
  proof -
    have "drop (Suc (length (exchanges m)) - mem_k m) (exchanges m @ [(u, a)])
         = drop (Suc (length pre) - mem_k m) (pre @ [(u, a)])"
    proof (cases "length pre \<le> mem_k m")
      case True
      then show ?thesis using 2(2) by simp
    next
      case False
      then have len: "length (exchanges m) = mem_k m" using 2(2) by simp
      have "Suc (length pre) - mem_k m = Suc 0 + (length pre - mem_k m)"
        using False by simp
      then have "drop (Suc (length pre) - mem_k m) (pre @ [(u, a)])
            = drop (Suc 0) (drop (length pre - mem_k m) (pre @ [(u, a)]))"
        by (simp only: drop_drop)
      also have "\<dots> = drop (Suc 0) (exchanges m @ [(u, a)])"
        using 2(2) by simp
      finally show ?thesis using len by simp
    qed
    then show ?thesis
      using exchanges_append_exchange [OF le, of u a] by (simp add: mem_k_append_exchange)
  qed
  from 2(1) [OF this] show ?case by (simp add: mem_k_append_exchange)
qed

lemma window_initial:
  "exchanges (append_all (ConversationBufferWindowMemory k key ret) es) = drop (length es - k) es"
  using window_append_all [of "ConversationBufferWindowMemory k key ret" "[]" es]
  by (simp add: ConversationBufferWindowMemory_def)

text \<open>
  Claim C1. The memory of a session, created with \<open>k = 2\<close>, is a bounded first-in
  first-out window: after any sequence of more than two appended exchanges the history
  is exactly the last two of them, in their order; the history never has more than
  \<open>2 * 2\<close> turns; and appending to a memory that holds \<open>[E1, E2]\<close> evicts \<open>E1\<close> and
  leaves \<open>[E2, E3]\<close>.
\<close>

theorem memory_window_fifo:
  "(2 < length es \<longrightarrow>
      history (append_all initial_memory es) = turns_of (drop (length es - 2) es))
   \<and> length (history (append_all initial_memory es)) \<le> 2 * 2
   \<and> exchanges (append_exchange (initial_memory\<lparr>exchanges := [E1, E2]\<rparr>) u3 a3)
       = [E2, (u3, a3)]"
  by (simp add: history_def initial_memory_def window_initial length_turns_of)
     (simp add: append_exchange_def ConversationBufferWindowMemory_def)

theorem memory_window_fifo_witness:
  "2 < length [(''q1'', ''a1''), (''q2'', ''a2''), (''q3'', ''a3'')]
   \<and> history (append_all initial_memory [(''q1'', ''a1''), (''q2'', ''a2''), (''q3'', ''a3'')])
       = [Turn UserRole ''q2'', Turn AssistantRole ''a2'',
          Turn UserRole ''q3'', Turn AssistantRole ''a3'']"
  using memory_window_fifo [of "[(''q1'', ''a1''), (''q2'', ''a2''), (''q3'', ''a3'')]"]
  by simp

text \<open>
  Claim C9. Whatever the memory holds, clearing it leaves an empty history, and
  \<^verbatim>\<open>reset_conversation\<close>, which clears the memory of the session, leaves a session whose
  history (and message list) is empty. Both are total functions: there is no state in
  which they fail.
\<close>

theorem clear_then_history_empty:
  "history (clear m) = []
   \<and> history (memory (fst (reset_conversation s))) = []
   \<and> messages (fst (reset_conversation s)) = []"
  by (simp add: history_def clear_def reset_conversation_def)


section \<open>Template selection and binding\<close>

lemma format_question_template:
  "format_aux [(''context'', c), (''chat_history'', h), (''question'', q)] None
     (template get_prompt_template) = Some (question_prompt_text c h q)"
  by (simp add: get_prompt_template_def question_prompt_text_def)

lemma format_scenario_template:
  "format_aux [(''context'', c), (''chat_history'', h), (''question'', q)] None
     (template get_scenario_prompt_template) = Some (scenario_prompt_text c h q)"
  by (simp add: get_scenario_prompt_template_def scenario_prompt_text_def)

lemma input_variables_templates:
  "input_variables get_prompt_template = [''context'', ''question'', ''chat_history'']"
  "input_variables get_scenario_prompt_template = [''context'', ''question'', ''chat_history'']"
  by (simp_all add: get_prompt_template_def get_scenario_prompt_template_def)

lemma bind_question_template:
  "bind_prompt get_prompt_template [(''context'', c), (''chat_history'', h), (''question'', q)]
     = Inr (question_prompt_text c h q)"
  by (simp add: bind_prompt_def input_variables_templates format_question_template)

lemma bind_scenario_template:
  "bind_prompt get_scenario_prompt_template
     [(''context'', c), (''chat_history'', h), (''question'', q)]
     = Inr (scenario_prompt_text c h q)"
  by (simp add: bind_prompt_def input_variables_templates format_scenario_template)

lemma prompt_texts_differ: "question_prompt_text c h q \<noteq> scenario_prompt_text c h q"
  by (simp add: question_prompt_text_def scenario_prompt_text_def)

lemma select_prompt_cases:
  "select_prompt ''Describe a scenario'' = get_scenario_prompt_template"
  "select_prompt ''Ask a legal question'' = get_prompt_template"
  by (simp_all add: select_prompt_def)

lemma build_prompt_selected:
  "build_prompt e (c\<lparr>qa_prompt := select_prompt it\<rparr>) m u docs =
     Inr (if it = ''Describe a scenario''
          then scenario_prompt_text (concat docs) (serialize e (history m)) u
          else question_prompt_text (concat docs) (serialize e (history m)) u)"
  by (simp add: build_prompt_def select_prompt_def bind_question_template
        bind_scenario_template)

text \<open>
  Claim C8, as the code has it. Two calls for the same mode return templates that are
  equal in value (text and input variables, both those of \<open>select_prompt\<close>), but each
  call constructs a new object: the two results are two different objects of the store,
  not one and the same template.
\<close>

theorem select_prompt_equal_not_identical:
  "(case call_select_prompt it h of
      (p1, h1) \<Rightarrow>
        (case call_select_prompt it h1 of
           (p2, h2) \<Rightarrow>
             p1 \<noteq> p2 \<and> h2 ! p1 = select_prompt it \<and> h2 ! p2 = select_prompt it
             \<and> h2 ! p1 = h2 ! p2))"
  by (simp add: call_select_prompt_def call_get_prompt_template_def
        call_get_scenario_prompt_template_def new_object_def select_prompt_def nth_append)

text \<open>
  Claim C8 as stated fails: two successive calls for the question mode, starting from an
  empty store, return the addresses 0 and 1.
\<close>

theorem select_prompt_identity_counterexample:
  "fst (call_select_prompt ''Ask a legal question'' [])
   \<noteq> fst (call_select_prompt ''Ask a legal question''
            (snd (call_select_prompt ''Ask a legal question'' [])))"
  by (simp add: call_select_prompt_def call_get_prompt_template_def new_object_def)


section \<open>One turn\<close>

text \<open>A call of the chain fails exactly when one of its three collaborator calls fails.\<close>

lemma chain_invoke_fails_iff:
  "chain_invoke e c m u = Inl x \<longleftrightarrow>
     retrieve e u (qa_search_k c) = Inl x
     \<or> (\<exists>docs. retrieve e u (qa_search_k c) = Inr docs
           \<and> (build_prompt e c m u docs = Inl x
               \<or> (\<exists>b. build_prompt e c m u docs = Inr b \<and> generate e b = Inl x)))"
  by (auto simp add: chain_invoke_def split: sum.splits)

lemma chain_invoke_succeeds:
  "chain_invoke e c m u = Inr (ans, m') \<Longrightarrow> m' = append_exchange m u ans"
  by (auto simp add: chain_invoke_def split: sum.splits)

lemma process_turn_failure:
  assumes "qa a = Some c"
    and "chain_invoke e (c\<lparr>qa_prompt := select_prompt it\<rparr>) m u = Inl x"
  shows "process_turn e a it m u =
           turn_failed (a\<lparr>qa := Some (c\<lparr>qa_prompt := select_prompt it\<rparr>)\<rparr>) m x"
  using assms by (simp add: process_turn_def Let_def)

lemma process_turn_success:
  assumes "qa a = Some c"
    and "chain_invoke e (c\<lparr>qa_prompt := select_prompt it\<rparr>) m u = Inr (ans, m')"
  shows "process_turn e a it m u =
           \<lparr>tr_answer = ans, tr_memory = m',
            tr_app = a\<lparr>qa := Some (c\<lparr>qa_prompt := select_prompt it\<rparr>)\<rparr>, tr_ui = []\<rparr>"
  using assms by (simp add: process_turn_def Let_def)

lemma ex_chain_retrieval_down:
  "chain_invoke ex_env_retrieval_down (page_chain it) m u
     = Inl (Exn RetrievalUnavailable ''index unreachable'')"
  by (simp add: chain_invoke_def ex_env_retrieval_down_def ex_env_ok_def)

lemma page_chain_update:
  "\<lparr>qa_prompt = get_prompt_template, qa_search_k = 4\<rparr>\<lparr>qa_prompt := select_prompt it\<rparr>
     = page_chain it"
  "(page_chain it')\<lparr>qa_prompt := select_prompt it\<rparr> = page_chain it"
  by (simp_all add: page_chain_def)

lemma ex_chain_timeout:
  "chain_invoke ex_env_timeout (page_chain it) m u
     = Inl (Exn GenerationTimeout ''deadline exceeded'')"
  using build_prompt_selected [where e = ex_env_timeout and c = "page_chain it" and it = it]
  by (simp add: chain_invoke_def ex_env_timeout_def ex_env_ok_def page_chain_update)

lemma ex_chain_ok:
  "chain_invoke ex_env_ok (page_chain it) m u = Inr (''Answer A'', append_exchange m u ''Answer A'')"
  using build_prompt_selected [where e = ex_env_ok and c = "page_chain it" and it = it]
  by (simp add: chain_invoke_def ex_env_ok_def page_chain_update)

lemma ex_chain_retrieval_raises:
  "chain_invoke (ex_env_retrieval_raises x) (page_chain it) m u = Inl x"
  by (simp add: chain_invoke_def ex_env_retrieval_raises_def ex_env_ok_def)

lemma ex_chain_generation_raises:
  "chain_invoke (ex_env_generation_raises x) (page_chain it) m u = Inl x"
  using build_prompt_selected
          [where e = "ex_env_generation_raises x" and c = "page_chain it" and it = it]
  by (simp add: chain_invoke_def ex_env_generation_raises_def ex_env_ok_def page_chain_update)

text \<open>
  Claim C2. For every utterance and mode: when the call of the chain fails, that is when
  retrieval, template binding or generation fails (\<open>chain_invoke_fails_iff\<close>), the
  memory after the turn is the memory before it.
\<close>

theorem failed_turn_keeps_memory:
  assumes "qa a = Some c"
    and "chain_invoke e (c\<lparr>qa_prompt := select_prompt it\<rparr>) m u = Inl x"
  shows "tr_memory (process_turn e a it m u) = m"
  using assms by (simp add: process_turn_failure turn_failed_def)

theorem failed_turn_keeps_memory_witness:
  "qa \<lparr>qa = Some (page_chain ''Ask a legal question'')\<rparr>
     = Some (page_chain ''Ask a legal question'')
   \<and> chain_invoke ex_env_timeout
        ((page_chain ''Ask a legal question'')\<lparr>qa_prompt := select_prompt ''Describe a scenario''\<rparr>)
        (initial_memory\<lparr>exchanges := [(''q1'', ''a1'')]\<rparr>) ''What is bail?''
       = Inl (Exn GenerationTimeout ''deadline exceeded'')
   \<and> tr_memory (process_turn ex_env_timeout \<lparr>qa = Some (page_chain ''Ask a legal question'')\<rparr>
        ''Describe a scenario'' (initial_memory\<lparr>exchanges := [(''q1'', ''a1'')]\<rparr>) ''What is bail?'')
       = initial_memory\<lparr>exchanges := [(''q1'', ''a1'')]\<rparr>"
proof -
  have q: "qa \<lparr>qa = Some (page_chain ''Ask a legal question'')\<rparr>
             = Some (page_chain ''Ask a legal question'')"
    by simp
  have f: "chain_invoke ex_env_timeout
        ((page_chain ''Ask a legal question'')\<lparr>qa_prompt := select_prompt ''Describe a scenario''\<rparr>)
        (initial_memory\<lparr>exchanges := [(''q1'', ''a1'')]\<rparr>) ''What is bail?''
       = Inl (Exn GenerationTimeout ''deadline exceeded'')"
    by (simp only: page_chain_update ex_chain_timeout)
  from q f failed_turn_keeps_memory [OF q f] show ?thesis by (intro conjI)
qed

text \<open>
  Claim C3, as the code has it. For every utterance and mode the turn returns a result
  (\<open>process_turn\<close> is total: the \<^verbatim>\<open>except\<close> branch is one of its cases). When the
  chain fails with any exception, of the four kinds or another, the answer is the one
  fixed apology and the memory is as before. Of the exception only its text leaves the
  turn, in an \<^verbatim>\<open>st.error\<close> element of the page: the whole result is given below and
  the kind of the exception occurs nowhere in it, nor is anything logged.
\<close>

theorem failed_turn_answers_apology:
  assumes "qa a = Some c"
    and "chain_invoke e (c\<lparr>qa_prompt := select_prompt it\<rparr>) m u = Inl x"
  shows "process_turn e a it m u =
           \<lparr>tr_answer = ''I apologize, but I encountered an error while processing your request. Please try again.'',
            tr_memory = m,
            tr_app = a\<lparr>qa := Some (c\<lparr>qa_prompt := select_prompt it\<rparr>)\<rparr>,
            tr_ui = [StError (''Error generating response: '' @ exn_str x)]\<rparr>"
  using assms by (simp add: process_turn_failure turn_failed_def apology_def)

theorem failed_turn_answers_apology_witness:
  "qa \<lparr>qa = Some (page_chain ''Ask a legal question'')\<rparr>
     = Some (page_chain ''Ask a legal question'')
   \<and> chain_invoke ex_env_retrieval_down
        ((page_chain ''Ask a legal question'')\<lparr>qa_prompt := select_prompt ''Ask a legal question''\<rparr>)
        initial_memory ''What is bail?''
       = Inl (Exn RetrievalUnavailable ''index unreachable'')
   \<and> tr_answer (process_turn ex_env_retrieval_down
        \<lparr>qa = Some (page_chain ''Ask a legal question'')\<rparr>
        ''Ask a legal question'' initial_memory ''What is bail?'')
       = ''I apologize, but I encountered an error while processing your request. Please try again.''
   \<and> tr_memory (process_turn ex_env_retrieval_down
        \<lparr>qa = Some (page_chain ''Ask a legal question'')\<rparr>
        ''Ask a legal question'' initial_memory ''What is bail?'')
       = initial_memory
   \<and> tr_ui (process_turn ex_env_retrieval_down
        \<lparr>qa = Some (page_chain ''Ask a legal question'')\<rparr>
        ''Ask a legal question'' initial_memory ''What is bail?'')
       = [StError ''Error generating response: index unreachable'']"
proof -
  have q: "qa \<lparr>qa = Some (page_chain ''Ask a legal question'')\<rparr>
             = Some (page_chain ''Ask a legal question'')"
    by simp
  have f: "chain_invoke ex_env_retrieval_down
        ((page_chain ''Ask a legal question'')\<lparr>qa_prompt := select_prompt ''Ask a legal question''\<rparr>)
        initial_memory ''What is bail?''
       = Inl (Exn RetrievalUnavailable ''index unreachable'')"
    by (simp only: page_chain_update ex_chain_retrieval_down)
  from failed_turn_answers_apology [OF q f] q f show ?thesis by simp
qed

text \<open>
  Claim C3 as stated fails: the error kind is not made available. A turn whose retrieval
  raises a \<open>RetrievalUnavailable\<close> and a turn whose generation raises a
  \<open>GenerationTimeout\<close> with the same text give the same result, and what the turn
  puts out of the exception is its raw text in an element of the page.
\<close>

theorem turn_error_kind_lost_counterexample:
  "exn_kind (Exn RetrievalUnavailable ''service failed'')
     \<noteq> exn_kind (Exn GenerationTimeout ''service failed'')
   \<and> process_turn (ex_env_retrieval_raises (Exn RetrievalUnavailable ''service failed''))
        \<lparr>qa = Some (page_chain ''Ask a legal question'')\<rparr>
        ''Ask a legal question'' initial_memory ''What is bail?''
     = process_turn (ex_env_generation_raises (Exn GenerationTimeout ''service failed''))
        \<lparr>qa = Some (page_chain ''Ask a legal question'')\<rparr>
        ''Ask a legal question'' initial_memory ''What is bail?''
   \<and> tr_ui (process_turn (ex_env_retrieval_raises (Exn RetrievalUnavailable ''service failed''))
        \<lparr>qa = Some (page_chain ''Ask a legal question'')\<rparr>
        ''Ask a legal question'' initial_memory ''What is bail?'')
     = [StError ''Error generating response: service failed'']"
proof -
  have q: "qa \<lparr>qa = Some (page_chain ''Ask a legal question'')\<rparr>
             = Some (page_chain ''Ask a legal question'')"
    by simp
  have r: "chain_invoke (ex_env_retrieval_raises (Exn RetrievalUnavailable ''service failed''))
        ((page_chain ''Ask a legal question'')\<lparr>qa_prompt := select_prompt ''Ask a legal question''\<rparr>)
        initial_memory ''What is bail?''
       = Inl (Exn RetrievalUnavailable ''service failed'')"
    by (simp only: page_chain_update ex_chain_retrieval_raises)
  have g: "chain_invoke (ex_env_generation_raises (Exn GenerationTimeout ''service failed''))
        ((page_chain ''Ask a legal question'')\<lparr>qa_prompt := select_prompt ''Ask a legal question''\<rparr>)
        initial_memory ''What is bail?''
       = Inl (Exn GenerationTimeout ''service failed'')"
    by (simp only: page_chain_update ex_chain_generation_raises)
  show ?thesis
    by (simp add: process_turn_failure [OF q r] process_turn_failure [OF q g] turn_failed_def)
qed

text \<open>
  What a turn does once retrieval has succeeded: it generates from the template of the
  mode, bound to the documents, the history and the utterance.
\<close>

lemma process_turn_generates:
  assumes "qa a = Some c" and "retrieve e u (qa_search_k c) = Inr docs"
  shows "process_turn e a it m u =
           (case generate e
                   (if it = ''Describe a scenario''
                    then scenario_prompt_text (concat docs) (serialize e (history m)) u
                    else question_prompt_text (concat docs) (serialize e (history m)) u) of
              Inl x \<Rightarrow> turn_failed (a\<lparr>qa := Some (c\<lparr>qa_prompt := select_prompt it\<rparr>)\<rparr>) m x
            | Inr ans \<Rightarrow>
                \<lparr>tr_answer = ans, tr_memory = append_exchange m u ans,
                 tr_app = a\<lparr>qa := Some (c\<lparr>qa_prompt := select_prompt it\<rparr>)\<rparr>, tr_ui = []\<rparr>)"
proof -
  have b: "build_prompt e (c\<lparr>qa_prompt := select_prompt it\<rparr>) m u docs =
             Inr (if it = ''Describe a scenario''
                  then scenario_prompt_text (concat docs) (serialize e (history m)) u
                  else question_prompt_text (concat docs) (serialize e (history m)) u)"
    by (rule build_prompt_selected)
  show ?thesis
    using assms
    by (simp add: process_turn_def Let_def chain_invoke_def b split: sum.splits)
qed

text \<open>
  Claim C5. The template is a function of the mode alone (\<open>select_prompt\<close> of the radio
  value), and the mode changes what the turn generates from: for the same utterance,
  memory and retrieved documents, the turn in scenario mode calls the model on the
  scenario template bound to them, the turn in question mode calls it on the question
  template bound to them, and these two bound prompts differ.
\<close>

theorem turn_prompt_depends_on_mode:
  assumes "qa a = Some c" and "retrieve e u (qa_search_k c) = Inr docs"
  shows "select_prompt ''Describe a scenario'' = get_scenario_prompt_template
         \<and> select_prompt ''Ask a legal question'' = get_prompt_template
         \<and> process_turn e a ''Describe a scenario'' m u =
           (case generate e (scenario_prompt_text (concat docs) (serialize e (history m)) u) of
              Inl x \<Rightarrow>
                turn_failed
                  (a\<lparr>qa := Some (c\<lparr>qa_prompt := select_prompt ''Describe a scenario''\<rparr>)\<rparr>) m x
            | Inr ans \<Rightarrow>
                \<lparr>tr_answer = ans, tr_memory = append_exchange m u ans,
                 tr_app = a\<lparr>qa := Some (c\<lparr>qa_prompt := select_prompt ''Describe a scenario''\<rparr>)\<rparr>,
                 tr_ui = []\<rparr>)
         \<and> process_turn e a ''Ask a legal question'' m u =
           (case generate e (question_prompt_text (concat docs) (serialize e (history m)) u) of
              Inl x \<Rightarrow>
                turn_failed
                  (a\<lparr>qa := Some (c\<lparr>qa_prompt := select_prompt ''Ask a legal question''\<rparr>)\<rparr>) m x
            | Inr ans \<Rightarrow>
                \<lparr>tr_answer = ans, tr_memory = append_exchange m u ans,
                 tr_app = a\<lparr>qa := Some (c\<lparr>qa_prompt := select_prompt ''Ask a legal question''\<rparr>)\<rparr>,
                 tr_ui = []\<rparr>)
         \<and> scenario_prompt_text (concat docs) (serialize e (history m)) u
             \<noteq> question_prompt_text (concat docs) (serialize e (history m)) u"
proof -
  have s: "process_turn e a ''Describe a scenario'' m u =
           (case generate e (scenario_prompt_text (concat docs) (serialize e (history m)) u) of
              Inl x \<Rightarrow>
                turn_failed
                  (a\<lparr>qa := Some (c\<lparr>qa_prompt := select_prompt ''Describe a scenario''\<rparr>)\<rparr>) m x
            | Inr ans \<Rightarrow>
                \<lparr>tr_answer = ans, tr_memory = append_exchange m u ans,
                 tr_app = a\<lparr>qa := Some (c\<lparr>qa_prompt := select_prompt ''Describe a scenario''\<rparr>)\<rparr>,
                 tr_ui = []\<rparr>)"
    using process_turn_generates [OF assms, of "''Describe a scenario''" m] by simp
  have q: "process_turn e a ''Ask a legal question'' m u =
           (case generate e (question_prompt_text (concat docs) (serialize e (history m)) u) of
              Inl x \<Rightarrow>
                turn_failed
                  (a\<lparr>qa := Some (c\<lparr>qa_prompt := select_prompt ''Ask a legal question''\<rparr>)\<rparr>) m x
            | Inr ans \<Rightarrow>
                \<lparr>tr_answer = ans, tr_memory = append_exchange m u ans,
                 tr_app = a\<lparr>qa := Some (c\<lparr>qa_prompt := select_prompt ''Ask a legal question''\<rparr>)\<rparr>,
                 tr_ui = []\<rparr>)"
    using process_turn_generates [OF assms, of "''Ask a legal question''" m] by simp
  have d: "scenario_prompt_text (concat docs) (serialize e (history m)) u
             \<noteq> question_prompt_text (concat docs) (serialize e (history m)) u"
    using prompt_texts_differ [of "concat docs" "serialize e (history m)" u] by simp
  from select_prompt_cases s q d show ?thesis by (intro conjI)
qed

theorem turn_prompt_depends_on_mode_witness:
  "qa \<lparr>qa = Some (page_chain ''Ask a legal question'')\<rparr>
     = Some (page_chain ''Ask a legal question'')
   \<and> retrieve ex_env_echo ''What is bail?'' (qa_search_k (page_chain ''Ask a legal question''))
       = Inr [''doc one'', ''doc two'']
   \<and> tr_answer (process_turn ex_env_echo \<lparr>qa = Some (page_chain ''Ask a legal question'')\<rparr>
        ''Describe a scenario'' initial_memory ''What is bail?'')
       = scenario_prompt_text ''doc onedoc two'' [] ''What is bail?''
   \<and> tr_answer (process_turn ex_env_echo \<lparr>qa = Some (page_chain ''Ask a legal question'')\<rparr>
        ''Ask a legal question'' initial_memory ''What is bail?'')
       = question_prompt_text ''doc onedoc two'' [] ''What is bail?''
   \<and> tr_answer (process_turn ex_env_echo \<lparr>qa = Some (page_chain ''Ask a legal question'')\<rparr>
        ''Describe a scenario'' initial_memory ''What is bail?'')
     \<noteq> tr_answer (process_turn ex_env_echo \<lparr>qa = Some (page_chain ''Ask a legal question'')\<rparr>
        ''Ask a legal question'' initial_memory ''What is bail?'')"
proof -
  have q: "qa \<lparr>qa = Some (page_chain ''Ask a legal question'')\<rparr>
             = Some (page_chain ''Ask a legal question'')"
    by simp
  have r: "retrieve ex_env_echo ''What is bail?'' (qa_search_k (page_chain ''Ask a legal question''))
             = Inr [''doc one'', ''doc two'']"
    by (simp add: ex_env_echo_def ex_env_ok_def page_chain_def)
  have g: "generate ex_env_echo b = Inr b" for b
    by (simp add: ex_env_echo_def ex_env_ok_def)
  have s: "serialize ex_env_echo (history initial_memory) = []"
    by (simp add: ex_env_echo_def ex_env_ok_def history_def initial_memory_def
          ConversationBufferWindowMemory_def)
  from turn_prompt_depends_on_mode [OF q r, of initial_memory] q r
  show ?thesis by (simp add: g s)
qed

text \<open>
  Claim C4. For every utterance, when the chain succeeds with an answer, the turn returns
  that answer and its memory is the old memory with exactly one exchange appended, the
  utterance as it was given paired with the answer. For a memory within its capacity
  (\<open>k > 0\<close>) the history after the turn is the history before it, less the oldest
  exchange if the window was full, followed by the user turn and the assistant turn.
\<close>

theorem successful_turn_appends_exchange:
  assumes "qa a = Some c"
    and "chain_invoke e (c\<lparr>qa_prompt := select_prompt it\<rparr>) m u = Inr (ans, m')"
  shows "tr_answer (process_turn e a it m u) = ans
         \<and> tr_memory (process_turn e a it m u) = append_exchange m u ans
         \<and> (0 < mem_k m \<and> length (exchanges m) \<le> mem_k m \<longrightarrow>
              history (tr_memory (process_turn e a it m u)) =
                drop (if length (exchanges m) < mem_k m then 0 else 2) (history m)
                @ [Turn UserRole u, Turn AssistantRole ans])"
proof -
  have m': "m' = append_exchange m u ans"
    using assms(2) by (rule chain_invoke_succeeds)
  have r: "tr_answer (process_turn e a it m u) = ans"
          "tr_memory (process_turn e a it m u) = append_exchange m u ans"
    using process_turn_success [OF assms] m' by simp_all
  have "history (append_exchange m u ans) =
          drop (if length (exchanges m) < mem_k m then 0 else 2) (history m)
          @ [Turn UserRole u, Turn AssistantRole ans]"
    if k: "0 < mem_k m" and le: "length (exchanges m) \<le> mem_k m"
  proof (cases "length (exchanges m) < mem_k m")
    case True
    then show ?thesis
      by (simp add: history_def append_exchange_def Let_def turns_of_append)
  next
    case False
    with le k obtain p ps where ex: "exchanges m = p # ps"
      by (cases "exchanges m") auto
    obtain pu pa where p: "p = (pu, pa)" by (cases p)
    from False le have "length (exchanges m) = mem_k m" by simp
    then show ?thesis using ex p
      by (simp add: history_def append_exchange_def Let_def turns_of_append)
  qed
  with r show ?thesis by simp
qed

theorem successful_turn_appends_exchange_witness:
  "qa \<lparr>qa = Some (page_chain ''Ask a legal question'')\<rparr>
     = Some (page_chain ''Ask a legal question'')
   \<and> chain_invoke ex_env_ok
        ((page_chain ''Ask a legal question'')\<lparr>qa_prompt := select_prompt ''Ask a legal question''\<rparr>)
        initial_memory ''What is bail?''
       = Inr (''Answer A'', append_exchange initial_memory ''What is bail?'' ''Answer A'')
   \<and> tr_answer (process_turn ex_env_ok \<lparr>qa = Some (page_chain ''Ask a legal question'')\<rparr>
        ''Ask a legal question'' initial_memory ''What is bail?'') = ''Answer A''
   \<and> history (tr_memory (process_turn ex_env_ok
        \<lparr>qa = Some (page_chain ''Ask a legal question'')\<rparr>
        ''Ask a legal question'' initial_memory ''What is bail?''))
       = [Turn UserRole ''What is bail?'', Turn AssistantRole ''Answer A'']"
proof -
  have q: "qa \<lparr>qa = Some (page_chain ''Ask a legal question'')\<rparr>
             = Some (page_chain ''Ask a legal question'')"
    by simp
  have f: "chain_invoke ex_env_ok
        ((page_chain ''Ask a legal question'')\<lparr>qa_prompt := select_prompt ''Ask a legal question''\<rparr>)
        initial_memory ''What is bail?''
       = Inr (''Answer A'', append_exchange initial_memory ''What is bail?'' ''Answer A'')"
    by (simp only: page_chain_update ex_chain_ok)
  have k: "0 < mem_k initial_memory \<and> length (exchanges initial_memory) \<le> mem_k initial_memory"
    by (simp add: initial_memory_def ConversationBufferWindowMemory_def)
  have h: "history initial_memory = []" "length (exchanges initial_memory) < mem_k initial_memory"
    by (simp_all add: history_def initial_memory_def ConversationBufferWindowMemory_def)
  from successful_turn_appends_exchange [OF q f] q f k h show ?thesis
    by (simp add: history_def append_exchange_def initial_memory_def
          ConversationBufferWindowMemory_def)
qed


section \<open>One run of the chat page\<close>

lemma initialize_fresh:
  "load_vector_store e = None \<Longrightarrow> build_chain e = None \<Longrightarrow>
   initialize_llm_components e fresh_app =
     ([], Some \<lparr>qa = Some \<lparr>qa_prompt = get_prompt_template, qa_search_k = 4\<rparr>\<rparr>)"
  by (simp add: initialize_llm_components_def fresh_app_def)

lemma initialize_no_store:
  "load_vector_store e = Some x \<Longrightarrow>
   initialize_llm_components e fresh_app =
     ([StError (''Could not load vector store: '' @ exn_str x)], None)"
  by (simp add: initialize_llm_components_def fresh_app_def)

lemma process_turn_page_failure:
  assumes "chain_invoke e (page_chain it) m u = Inl x"
  shows "process_turn e \<lparr>qa = Some \<lparr>qa_prompt = get_prompt_template, qa_search_k = 4\<rparr>\<rparr> it m u
           = turn_failed \<lparr>qa = Some (page_chain it)\<rparr> m x"
  using assms by (simp add: process_turn_def Let_def page_chain_def)

text \<open>What a run with a submitted utterance does when the chain fails.\<close>

lemma render_failed_turn:
  assumes "\<not> back_home i" and "load_vector_store e = None" and "build_chain e = None"
    and "chat_input i = Some u" and "u \<noteq> []"
    and "chain_invoke e (page_chain (input_type i)) (memory s) u = Inl x"
  shows "r_ui (render_chat_page e i fresh_app s) =
           display_messages (messages s)
           @ [ChatMessage ''user'' u,
              StError (''Error generating response: '' @ exn_str x),
              ChatMessage ''assistant'' apology]"
    and "\<not> clear_chat i \<Longrightarrow>
         messages (r_state (render_chat_page e i fresh_app s)) =
           messages s @ [\<lparr>role = ''user'', content = u\<rparr>,
                         \<lparr>role = ''assistant'', content = apology\<rparr>]"
    and "\<not> clear_chat i \<Longrightarrow> memory (r_state (render_chat_page e i fresh_app s)) = memory s"
  using assms
  by (simp_all add: render_chat_page_def go_to_page_def reset_conversation_def
        initialize_fresh handle_prompt_def process_turn_page_failure turn_failed_def Let_def)

text \<open>The whole result of such a run.\<close>

lemma render_failed_turn_result:
  assumes "\<not> back_home i" and "load_vector_store e = None" and "build_chain e = None"
    and "chat_input i = Some u" and "u \<noteq> []"
    and "chain_invoke e (page_chain (input_type i)) (memory s) u = Inl x"
  shows "render_chat_page e i fresh_app s =
           \<lparr>r_app = \<lparr>qa = Some (page_chain (input_type i))\<rparr>,
            r_state =
              (if clear_chat i then s\<lparr>messages := [], memory := clear (memory s)\<rparr>
               else s\<lparr>messages := messages s @ [\<lparr>role = ''user'', content = u\<rparr>,
                                                 \<lparr>role = ''assistant'', content = apology\<rparr>]\<rparr>),
            r_ui =
              display_messages (messages s)
              @ [ChatMessage ''user'' u,
                 StError (''Error generating response: '' @ exn_str x),
                 ChatMessage ''assistant'' apology],
            r_outcome = (if clear_chat i then Rerun else if new_question i then Rerun else Finished)\<rparr>"
  using assms
  by (simp add: render_chat_page_def go_to_page_def reset_conversation_def
        initialize_fresh handle_prompt_def process_turn_page_failure turn_failed_def Let_def)

lemma ex_run_hypotheses:
  "\<not> back_home ex_input" "chat_input ex_input = Some ''What is bail?''"
  "input_type ex_input = ''Ask a legal question''" "\<not> clear_chat ex_input"
  "\<not> new_question ex_input"
  "load_vector_store (ex_env_retrieval_raises x) = None"
  "build_chain (ex_env_retrieval_raises x) = None"
  "load_vector_store (ex_env_generation_raises x) = None"
  "build_chain (ex_env_generation_raises x) = None"
  by (simp_all add: ex_input_def ex_env_retrieval_raises_def ex_env_generation_raises_def
        ex_env_ok_def)

lemma ex_run_retrieval_raises:
  "render_chat_page (ex_env_retrieval_raises x) ex_input fresh_app ex_state =
     \<lparr>r_app = \<lparr>qa = Some (page_chain ''Ask a legal question'')\<rparr>,
      r_state = ex_state\<lparr>messages := [\<lparr>role = ''user'', content = ''What is bail?''\<rparr>,
                                        \<lparr>role = ''assistant'', content = apology\<rparr>]\<rparr>,
      r_ui = [ChatMessage ''user'' ''What is bail?'',
              StError (''Error generating response: '' @ exn_str x),
              ChatMessage ''assistant'' apology],
      r_outcome = Finished\<rparr>"
proof -
  have c: "chain_invoke (ex_env_retrieval_raises x) (page_chain (input_type ex_input))
             (memory ex_state) ''What is bail?'' = Inl x"
    by (rule ex_chain_retrieval_raises)
  have ms: "messages ex_state = []"
    by (simp add: ex_state_def initialize_session_state_def)
  show ?thesis
    using render_failed_turn_result
            [OF ex_run_hypotheses(1) ex_run_hypotheses(6) ex_run_hypotheses(7)
                ex_run_hypotheses(2) _ c]
    by (simp add: ex_run_hypotheses ms display_messages_def)
qed

lemma ex_run_generation_raises:
  "render_chat_page (ex_env_generation_raises x) ex_input fresh_app ex_state =
     \<lparr>r_app = \<lparr>qa = Some (page_chain ''Ask a legal question'')\<rparr>,
      r_state = ex_state\<lparr>messages := [\<lparr>role = ''user'', content = ''What is bail?''\<rparr>,
                                        \<lparr>role = ''assistant'', content = apology\<rparr>]\<rparr>,
      r_ui = [ChatMessage ''user'' ''What is bail?'',
              StError (''Error generating response: '' @ exn_str x),
              ChatMessage ''assistant'' apology],
      r_outcome = Finished\<rparr>"
proof -
  have c: "chain_invoke (ex_env_generation_raises x) (page_chain (input_type ex_input))
             (memory ex_state) ''What is bail?'' = Inl x"
    by (rule ex_chain_generation_raises)
  have ms: "messages ex_state = []"
    by (simp add: ex_state_def initialize_session_state_def)
  show ?thesis
    using render_failed_turn_result
            [OF ex_run_hypotheses(1) ex_run_hypotheses(8) ex_run_hypotheses(9)
                ex_run_hypotheses(2) _ c]
    by (simp add: ex_run_hypotheses ms display_messages_def)
qed

text \<open>Every run that gets past the back button and the components displays the stored messages.\<close>

lemma render_redisplays:
  assumes "\<not> back_home i" and "load_vector_store e = None" and "build_chain e = None"
  shows "take (length (messages s)) (r_ui (render_chat_page e i fresh_app s))
           = display_messages (messages s)"
  using assms
  by (simp add: render_chat_page_def go_to_page_def reset_conversation_def
        initialize_fresh Let_def display_messages_def
      split: option.splits prod.splits)

text \<open>
  Claim C6, as the code has it. When the index cannot be queried during a turn, the turn
  fails with no partial answer: the answer is the fixed apology, the memory is unchanged,
  and of the exception its text, not its kind, is reported, through \<^verbatim>\<open>st.error\<close>
  (the whole result of the turn is given, and the kind occurs nowhere in it). When the
  vector store cannot be loaded, the run of the chat page reports the text of the
  exception through \<^verbatim>\<open>st.error\<close> and stops there: the session state is unchanged and
  the page shows nothing else, no answer and no apology, whether or not an utterance was
  submitted.
\<close>

theorem retrieval_failure_query_and_load:
  "(qa a = Some c \<and> retrieve e u (qa_search_k c) = Inl x \<longrightarrow>
      process_turn e a it m u =
        \<lparr>tr_answer = apology, tr_memory = m,
         tr_app = a\<lparr>qa := Some (c\<lparr>qa_prompt := select_prompt it\<rparr>)\<rparr>,
         tr_ui = [StError (''Error generating response: '' @ exn_str x)]\<rparr>)
   \<and> (\<not> back_home i \<and> load_vector_store e' = Some x' \<longrightarrow>
        r_outcome (render_chat_page e' i fresh_app s) = Stopped
        \<and> r_state (render_chat_page e' i fresh_app s) = s
        \<and> r_ui (render_chat_page e' i fresh_app s)
            = [StError (''Could not load vector store: '' @ exn_str x')])"
proof (intro conjI impI)
  assume h: "qa a = Some c \<and> retrieve e u (qa_search_k c) = Inl x"
  then have "chain_invoke e (c\<lparr>qa_prompt := select_prompt it\<rparr>) m u = Inl x"
    by (simp add: chain_invoke_fails_iff)
  with h show "process_turn e a it m u =
        \<lparr>tr_answer = apology, tr_memory = m,
         tr_app = a\<lparr>qa := Some (c\<lparr>qa_prompt := select_prompt it\<rparr>)\<rparr>,
         tr_ui = [StError (''Error generating response: '' @ exn_str x)]\<rparr>"
    by (simp add: process_turn_failure turn_failed_def)
next
  assume h: "\<not> back_home i \<and> load_vector_store e' = Some x'"
  then show "r_outcome (render_chat_page e' i fresh_app s) = Stopped"
    and "r_state (render_chat_page e' i fresh_app s) = s"
    and "r_ui (render_chat_page e' i fresh_app s)
           = [StError (''Could not load vector store: '' @ exn_str x')]"
    by (simp_all add: render_chat_page_def initialize_no_store)
qed

theorem retrieval_failure_query_and_load_witness:
  "qa \<lparr>qa = Some (page_chain ''Ask a legal question'')\<rparr>
     = Some (page_chain ''Ask a legal question'')
   \<and> retrieve ex_env_retrieval_down ''What is bail?''
        (qa_search_k (page_chain ''Ask a legal question''))
       = Inl (Exn RetrievalUnavailable ''index unreachable'')
   \<and> tr_answer (process_turn ex_env_retrieval_down
        \<lparr>qa = Some (page_chain ''Ask a legal question'')\<rparr>
        ''Ask a legal question'' initial_memory ''What is bail?'') = apology
   \<and> tr_memory (process_turn ex_env_retrieval_down
        \<lparr>qa = Some (page_chain ''Ask a legal question'')\<rparr>
        ''Ask a legal question'' initial_memory ''What is bail?'') = initial_memory
   \<and> tr_ui (process_turn ex_env_retrieval_down
        \<lparr>qa = Some (page_chain ''Ask a legal question'')\<rparr>
        ''Ask a legal question'' initial_memory ''What is bail?'')
       = [StError ''Error generating response: index unreachable'']
   \<and> \<not> back_home ex_input
   \<and> load_vector_store ex_env_no_store = Some (Exn RetrievalUnavailable ''no such file'')
   \<and> r_outcome (render_chat_page ex_env_no_store ex_input fresh_app ex_state) = Stopped
   \<and> r_state (render_chat_page ex_env_no_store ex_input fresh_app ex_state) = ex_state"
proof -
  have a: "qa \<lparr>qa = Some (page_chain ''Ask a legal question'')\<rparr>
             = Some (page_chain ''Ask a legal question'')
           \<and> retrieve ex_env_retrieval_down ''What is bail?''
                (qa_search_k (page_chain ''Ask a legal question''))
               = Inl (Exn RetrievalUnavailable ''index unreachable'')"
    by (simp add: ex_env_retrieval_down_def ex_env_ok_def)
  have b: "\<not> back_home ex_input
           \<and> load_vector_store ex_env_no_store = Some (Exn RetrievalUnavailable ''no such file'')"
    by (simp add: ex_input_def ex_env_no_store_def ex_env_ok_def)
  from a b
    retrieval_failure_query_and_load
      [where a = "\<lparr>qa = Some (page_chain ''Ask a legal question'')\<rparr>"
         and c = "page_chain ''Ask a legal question''"
         and e = ex_env_retrieval_down and u = "''What is bail?''"
         and x = "Exn RetrievalUnavailable ''index unreachable''"
         and it = "''Ask a legal question''" and m = initial_memory
         and i = ex_input and e' = ex_env_no_store
         and x' = "Exn RetrievalUnavailable ''no such file''" and s = ex_state]
  show ?thesis by simp
qed

text \<open>
  Claim C6 as stated fails twice. When the vector store cannot be loaded, with an
  utterance submitted, the run stops after the error box: the page shows no fallback
  answer and the message list stays empty. When the index cannot be queried, the kind is
  not what is reported: a run whose retrieval raises a \<open>RetrievalUnavailable\<close> is the
  very run of a generation that raises a \<open>GenerationUnavailable\<close> with the same text,
  and the report on the page is that text.
\<close>

theorem retrieval_failure_counterexample:
  "chat_input ex_input = Some ''What is bail?''
   \<and> r_outcome (render_chat_page ex_env_no_store ex_input fresh_app ex_state) = Stopped
   \<and> r_ui (render_chat_page ex_env_no_store ex_input fresh_app ex_state)
       = [StError ''Could not load vector store: no such file'']
   \<and> messages (r_state (render_chat_page ex_env_no_store ex_input fresh_app ex_state)) = []
   \<and> exn_kind (Exn RetrievalUnavailable ''connection refused'')
       \<noteq> exn_kind (Exn GenerationUnavailable ''connection refused'')
   \<and> render_chat_page
         (ex_env_retrieval_raises (Exn RetrievalUnavailable ''connection refused''))
         ex_input fresh_app ex_state
     = render_chat_page
         (ex_env_generation_raises (Exn GenerationUnavailable ''connection refused''))
         ex_input fresh_app ex_state
   \<and> r_ui (render_chat_page
               (ex_env_retrieval_raises (Exn RetrievalUnavailable ''connection refused''))
               ex_input fresh_app ex_state)
     = [ChatMessage ''user'' ''What is bail?'',
        StError ''Error generating response: connection refused'',
        ChatMessage ''assistant'' apology]"
proof -
  have l: "chat_input ex_input = Some ''What is bail?''
     \<and> r_outcome (render_chat_page ex_env_no_store ex_input fresh_app ex_state) = Stopped
     \<and> r_ui (render_chat_page ex_env_no_store ex_input fresh_app ex_state)
         = [StError ''Could not load vector store: no such file'']
     \<and> messages (r_state (render_chat_page ex_env_no_store ex_input fresh_app ex_state)) = []"
    by (simp add: render_chat_page_def initialize_llm_components_def fresh_app_def
          ex_env_no_store_def ex_env_ok_def ex_input_def ex_state_def
          initialize_session_state_def)
  show ?thesis
    using l by (simp add: ex_run_retrieval_raises ex_run_generation_raises)
qed

text \<open>
  Claim C7, as the code has it. On every failing turn, whatever the exception, the
  answer is the single fixed apology: that is what the assistant's bubble shows and what
  is stored in the message list. The kind of the exception is preserved nowhere: the
  whole result of the run is given below, nothing in it is a log, and the kind does not
  occur in it. The text of the exception is displayed on the page of that run, verbatim,
  in an error box between the user's bubble and the apology.
\<close>

theorem failed_turn_page_output:
  assumes "\<not> back_home i" and "load_vector_store e = None" and "build_chain e = None"
    and "chat_input i = Some u" and "u \<noteq> []"
    and "chain_invoke e (page_chain (input_type i)) (memory s) u = Inl x"
  shows "render_chat_page e i fresh_app s =
           \<lparr>r_app = \<lparr>qa = Some (page_chain (input_type i))\<rparr>,
            r_state =
              (if clear_chat i then s\<lparr>messages := [], memory := clear (memory s)\<rparr>
               else s\<lparr>messages := messages s @
                   [\<lparr>role = ''user'', content = u\<rparr>,
                    \<lparr>role = ''assistant'', content = ''I apologize, but I encountered an error while processing your request. Please try again.''\<rparr>]\<rparr>),
            r_ui =
              display_messages (messages s)
              @ [ChatMessage ''user'' u,
                 StError (''Error generating response: '' @ exn_str x),
                 ChatMessage ''assistant''
                   ''I apologize, but I encountered an error while processing your request. Please try again.''],
            r_outcome = (if clear_chat i then Rerun else if new_question i then Rerun else Finished)\<rparr>"
  using render_failed_turn_result [OF assms] by (simp add: apology_def)

theorem failed_turn_page_output_witness:
  "\<not> back_home ex_input \<and> load_vector_store ex_env_retrieval_down = None
   \<and> build_chain ex_env_retrieval_down = None
   \<and> chat_input ex_input = Some ''What is bail?'' \<and> ''What is bail?'' \<noteq> []
   \<and> chain_invoke ex_env_retrieval_down (page_chain (input_type ex_input)) (memory ex_state)
        ''What is bail?'' = Inl (Exn RetrievalUnavailable ''index unreachable'')
   \<and> r_ui (render_chat_page ex_env_retrieval_down ex_input fresh_app ex_state) =
        [ChatMessage ''user'' ''What is bail?'',
         StError ''Error generating response: index unreachable'',
         ChatMessage ''assistant''
           ''I apologize, but I encountered an error while processing your request. Please try again.'']
   \<and> messages (r_state (render_chat_page ex_env_retrieval_down ex_input fresh_app ex_state)) =
        [\<lparr>role = ''user'', content = ''What is bail?''\<rparr>,
         \<lparr>role = ''assistant'', content = ''I apologize, but I encountered an error while processing your request. Please try again.''\<rparr>]"
proof -
  have h1: "\<not> back_home ex_input" by (simp add: ex_input_def)
  have h2: "load_vector_store ex_env_retrieval_down = None"
    by (simp add: ex_env_retrieval_down_def ex_env_ok_def)
  have h3: "build_chain ex_env_retrieval_down = None"
    by (simp add: ex_env_retrieval_down_def ex_env_ok_def)
  have h4: "chat_input ex_input = Some ''What is bail?''" by (simp add: ex_input_def)
  have h5: "''What is bail?'' \<noteq> []" by simp
  have h6: "chain_invoke ex_env_retrieval_down (page_chain (input_type ex_input))
              (memory ex_state) ''What is bail?''
            = Inl (Exn RetrievalUnavailable ''index unreachable'')"
    by (rule ex_chain_retrieval_down)
  have ms: "messages ex_state = []"
    by (simp add: ex_state_def initialize_session_state_def)
  have cc: "\<not> clear_chat ex_input" by (simp add: ex_input_def)
  from failed_turn_page_output [OF h1 h2 h3 h4 h5 h6] h1 h2 h3 h4 h5 h6 ms cc
  show ?thesis by (simp add: display_messages_def)
qed

text \<open>
  Claim C7 as stated fails. The kind is not preserved: failures of the four kinds with
  the same text give one and the same run, in which no kind occurs. And the raw error is
  shown to the user: the page of that run contains the text of the exception, verbatim.
\<close>

theorem error_kind_lost_text_shown_counterexample:
  "render_chat_page (ex_env_retrieval_raises (Exn RetrievalUnavailable ''deadline exceeded''))
     ex_input fresh_app ex_state
   = render_chat_page (ex_env_generation_raises (Exn GenerationTimeout ''deadline exceeded''))
       ex_input fresh_app ex_state
   \<and> render_chat_page (ex_env_generation_raises (Exn GenerationUnavailable ''deadline exceeded''))
       ex_input fresh_app ex_state
   = render_chat_page (ex_env_generation_raises (Exn GenerationTimeout ''deadline exceeded''))
       ex_input fresh_app ex_state
   \<and> render_chat_page (ex_env_generation_raises (Exn TemplateBindingError ''deadline exceeded''))
       ex_input fresh_app ex_state
   = render_chat_page (ex_env_generation_raises (Exn GenerationTimeout ''deadline exceeded''))
       ex_input fresh_app ex_state
   \<and> r_ui (render_chat_page
             (ex_env_generation_raises (Exn GenerationTimeout ''deadline exceeded''))
             ex_input fresh_app ex_state)
     = [ChatMessage ''user'' ''What is bail?'',
        StError ''Error generating response: deadline exceeded'',
        ChatMessage ''assistant'' apology]"
  by (simp add: ex_run_retrieval_raises ex_run_generation_raises)

text \<open>
  Claim C10. On a failed turn the memory of the session is unchanged, yet the message
  list is extended by the user's utterance and then by the apology as an assistant
  message; and every later run that reaches the display loop renders both again, after
  the messages that were there before.
\<close>

theorem failed_turn_enters_transcript:
  assumes "\<not> back_home i" and "load_vector_store e = None" and "build_chain e = None"
    and "chat_input i = Some u" and "u \<noteq> []"
    and "chain_invoke e (page_chain (input_type i)) (memory s) u = Inl x"
    and "\<not> clear_chat i"
  shows "memory (r_state (render_chat_page e i fresh_app s)) = memory s
         \<and> messages (r_state (render_chat_page e i fresh_app s)) =
             messages s @ [\<lparr>role = ''user'', content = u\<rparr>,
                           \<lparr>role = ''assistant'', content = apology\<rparr>]
         \<and> (\<not> back_home i' \<and> load_vector_store e' = None \<and> build_chain e' = None \<longrightarrow>
              take (length (messages s) + 2)
                (r_ui (render_chat_page e' i' fresh_app
                         (r_state (render_chat_page e i fresh_app s))))
              = display_messages (messages s)
                @ [ChatMessage ''user'' u, ChatMessage ''assistant'' apology])"
proof -
  let ?s' = "r_state (render_chat_page e i fresh_app s)"
  have mem: "memory ?s' = memory s"
    using render_failed_turn(3) [OF assms(1-6)] assms(7) by simp
  have ms: "messages ?s' = messages s @ [\<lparr>role = ''user'', content = u\<rparr>,
                                          \<lparr>role = ''assistant'', content = apology\<rparr>]"
    using render_failed_turn(2) [OF assms(1-6)] assms(7) by simp
  have "take (length (messages s) + 2) (r_ui (render_chat_page e' i' fresh_app ?s'))
          = display_messages (messages s)
            @ [ChatMessage ''user'' u, ChatMessage ''assistant'' apology]"
    if "\<not> back_home i'" and "load_vector_store e' = None" and "build_chain e' = None"
    using render_redisplays [OF that, of ?s'] by (simp add: ms display_messages_def)
  with mem ms show ?thesis by simp
qed

theorem failed_turn_enters_transcript_witness:
  "\<not> back_home ex_input \<and> load_vector_store ex_env_timeout = None
   \<and> build_chain ex_env_timeout = None
   \<and> chat_input ex_input = Some ''What is bail?'' \<and> ''What is bail?'' \<noteq> []
   \<and> chain_invoke ex_env_timeout (page_chain (input_type ex_input)) (memory ex_state)
        ''What is bail?'' = Inl (Exn GenerationTimeout ''deadline exceeded'')
   \<and> \<not> clear_chat ex_input
   \<and> load_vector_store ex_env_ok = None \<and> build_chain ex_env_ok = None
   \<and> memory (r_state (render_chat_page ex_env_timeout ex_input fresh_app ex_state))
       = initial_memory
   \<and> messages (r_state (render_chat_page ex_env_timeout ex_input fresh_app ex_state))
       = [\<lparr>role = ''user'', content = ''What is bail?''\<rparr>,
          \<lparr>role = ''assistant'', content = apology\<rparr>]
   \<and> take 2 (r_ui (render_chat_page ex_env_ok (ex_input\<lparr>chat_input := None\<rparr>) fresh_app
                (r_state (render_chat_page ex_env_timeout ex_input fresh_app ex_state))))
       = [ChatMessage ''user'' ''What is bail?'', ChatMessage ''assistant'' apology]"
proof -
  have h1: "\<not> back_home ex_input" by (simp add: ex_input_def)
  have h2: "load_vector_store ex_env_timeout = None"
    by (simp add: ex_env_timeout_def ex_env_ok_def)
  have h3: "build_chain ex_env_timeout = None"
    by (simp add: ex_env_timeout_def ex_env_ok_def)
  have h4: "chat_input ex_input = Some ''What is bail?''" by (simp add: ex_input_def)
  have h5: "''What is bail?'' \<noteq> []" by simp
  have h6: "chain_invoke ex_env_timeout (page_chain (input_type ex_input)) (memory ex_state)
              ''What is bail?'' = Inl (Exn GenerationTimeout ''deadline exceeded'')"
    by (rule ex_chain_timeout)
  have h7: "\<not> clear_chat ex_input" by (simp add: ex_input_def)
  have n: "\<not> back_home (ex_input\<lparr>chat_input := None\<rparr>)
           \<and> load_vector_store ex_env_ok = None \<and> build_chain ex_env_ok = None"
    by (simp add: ex_input_def ex_env_ok_def)
  have s: "memory ex_state = initial_memory" "messages ex_state = []"
    by (simp_all add: ex_state_def initialize_session_state_def)
  from failed_turn_enters_transcript [OF h1 h2 h3 h4 h5 h6 h7,
         where i' = "ex_input\<lparr>chat_input := None\<rparr>" and e' = ex_env_ok]
       h1 h2 h3 h4 h5 h6 h7 n s
  show ?thesis by (simp add: display_messages_def numeral_2_eq_2)
qed

end
